theory Spec2Isabelle
  imports Complex_Main
begin

section \<open>Collision detection and magnetic repulsion for canvas nodes\<close>

text \<open>
  A shallow embedding of the collision module of the spatial canvas
  (\<^verbatim>\<open>getDefaultNodeSize\<close>, \<^verbatim>\<open>getNodeBounds\<close>, \<^verbatim>\<open>calculateAdaptivePadding\<close>,
  \<^verbatim>\<open>checkCollision\<close>, \<^verbatim>\<open>calculateRepulsionForce\<close>, \<^verbatim>\<open>findValidPosition\<close>).

  JavaScript numbers are modelled as real numbers: rounding, NaN and overflow of
  IEEE doubles are outside the model. The one non-finite number the module itself
  produces, \<^verbatim>\<open>Infinity\<close> as a distance, is a constructor of its own.
  The value drawn from \<^verbatim>\<open>Math.random()\<close> is an explicit argument.
\<close>

subsection \<open>Data model\<close>

text \<open>A value read from \<^verbatim>\<open>node.data\<close>, on which the code tests \<^verbatim>\<open>typeof\<close>.\<close>

datatype jsval = JUndefined | JNull | JBool bool | JNum real | JStr string

text \<open>\<^verbatim>\<open>node.parentNode\<close>: compared with \<^verbatim>\<open>!==\<close>, so unset-as-undefined and
  unset-as-null are different values.\<close>

datatype parent = PUndefined | PNull | PId string

datatype jsnum = Num real | Infinity

record pos =
  px :: real
  py :: real

text \<open>
  A node. \<^verbatim>\<open>style_width\<close> and \<^verbatim>\<open>style_height\<close> are \<^verbatim>\<open>node.style?.width\<close> and
  \<^verbatim>\<open>node.style?.height\<close>: \<open>None\<close> when the style or the field is absent, a
  number otherwise (the canvas writes pixel sizes there). The node type is a key of
  the size table or any other string.
\<close>

record node =
  node_id :: string
  node_type :: string
  position :: pos
  style_width :: "real option"
  style_height :: "real option"
  data_width :: jsval
  data_height :: jsval
  parentNode :: parent

record size =
  s_width :: real
  s_height :: real

record bounds =
  b_x :: real
  b_y :: real
  b_width :: real
  b_height :: real
  b_centerX :: real
  b_centerY :: real
  b_right :: real
  b_bottom :: real

record collision =
  colliding :: bool
  overlapX :: real
  overlapY :: real
  distance :: jsnum

record force =
  deltaX :: real
  deltaY :: real
  strength :: real

text \<open>A district (zone): only \<^verbatim>\<open>district.style?.width\<close> and
  \<^verbatim>\<open>district.style?.height\<close> are read.\<close>

record district =
  d_style_width :: "real option"
  d_style_height :: "real option"

subsection \<open>Default sizes\<close>

definition mk_size :: "real \<Rightarrow> real \<Rightarrow> size" where
  "mk_size w h = \<lparr>s_width = w, s_height = h\<rparr>"

definition DEFAULT_NODE_SIZES :: "(string \<times> size) list" where
  "DEFAULT_NODE_SIZES =
    [(''agent'', mk_size 200 120),
     (''contact'', mk_size 120 140),
     (''chess'', mk_size 360 360),
     (''app'', mk_size 400 300),
     (''metric'', mk_size 160 120),
     (''graph'', mk_size 500 400),
     (''winamp'', mk_size 307 400),
     (''butterchurn'', mk_size 400 300),
     (''pomodoro'', mk_size 228 228),
     (''flipclock'', mk_size 300 342),
     (''shader'', mk_size 200 150),
     (''matrix'', mk_size 500 500),
     (''portal'', mk_size 150 100),
     (''note'', mk_size 200 150),
     (''task'', mk_size 200 100),
     (''stack'', mk_size 200 150),
     (''device'', mk_size 200 150),
     (''synth'', mk_size 300 200),
     (''drummachine'', mk_size 400 300),
     (''sticker'', mk_size 200 200),
     (''stickerpack'', mk_size 300 200),
     (''contactsStack'', mk_size 280 200),
     (''action'', mk_size 80 80),
     (''guitartuna'', mk_size 380 200),
     (''audiointerface'', mk_size 360 220),
     (''templatebrowser'', mk_size 400 500),
     (''projecthub'', mk_size 320 280),
     (''temporalinbox'', mk_size 280 320),
     (''kanban'', mk_size 600 400),
     (''gtdinbox'', mk_size 480 420),
     (''mindmap'', mk_size 600 400),
     (''timeline'', mk_size 700 400),
     (''sketch'', mk_size 600 500),
     (''photoeditor'', mk_size 560 440),
     (''audioeditor'', mk_size 600 380),
     (''publisher'', mk_size 650 600),
     (''default'', mk_size 200 150)]"

text \<open>\<^verbatim>\<open>DEFAULT_NODE_SIZES[nodeType] || DEFAULT_NODE_SIZES.default\<close>; keys
  inherited from the object prototype are not node types.\<close>

definition getDefaultNodeSize :: "string \<Rightarrow> size" where
  "getDefaultNodeSize nodeType =
     (case map_of DEFAULT_NODE_SIZES nodeType of
        Some s \<Rightarrow> s
      | None \<Rightarrow> mk_size 200 150)"

subsection \<open>Bounds\<close>

text \<open>The explicit value of one dimension, if there is a usable one:
  \<^verbatim>\<open>style?.d || (data?.d && typeof data.d === 'number' ? data.d : null)\<close>.
  Zero is falsy, so an explicit zero counts as absent.\<close>

definition explicitDimension :: "real option \<Rightarrow> jsval \<Rightarrow> real option" where
  "explicitDimension styleDim dataDim =
     (case styleDim of
        Some w \<Rightarrow> if w \<noteq> 0 then Some w else
          (case dataDim of JNum d \<Rightarrow> if d \<noteq> 0 then Some d else None | _ \<Rightarrow> None)
      | None \<Rightarrow>
          (case dataDim of JNum d \<Rightarrow> if d \<noteq> 0 then Some d else None | _ \<Rightarrow> None))"

text \<open>\<^verbatim>\<open>... || defaultSize.d\<close>\<close>

definition resolveDimension :: "real option \<Rightarrow> jsval \<Rightarrow> real \<Rightarrow> real" where
  "resolveDimension styleDim dataDim defaultDim =
     (case explicitDimension styleDim dataDim of Some v \<Rightarrow> v | None \<Rightarrow> defaultDim)"

definition getNodeBounds :: "node \<Rightarrow> bounds" where
  "getNodeBounds n =
     (let defaultSize = getDefaultNodeSize (node_type n);
          width = resolveDimension (style_width n) (data_width n) (s_width defaultSize);
          height = resolveDimension (style_height n) (data_height n) (s_height defaultSize);
          x = px (position n);
          y = py (position n);
          centerX = x + width / 2;
          centerY = y + height / 2
      in \<lparr>b_x = x, b_y = y, b_width = width, b_height = height,
          b_centerX = centerX, b_centerY = centerY,
          b_right = x + width, b_bottom = y + height\<rparr>)"

subsection \<open>Adaptive padding\<close>

definition calculateAdaptivePadding :: "node \<Rightarrow> node \<Rightarrow> real" where
  "calculateAdaptivePadding node1 node2 =
     (let bounds1 = getNodeBounds node1;
          bounds2 = getNodeBounds node2;
          avgSize = (b_width bounds1 + b_height bounds1 + b_width bounds2 + b_height bounds2) / 4;
          adaptivePadding = avgSize * (1 / 10);
          totalPadding = 20 + adaptivePadding
      in max 20 (min 100 totalPadding))"

subsection \<open>Collision check\<close>

definition checkCollision :: "node \<Rightarrow> node \<Rightarrow> real \<Rightarrow> collision" where
  "checkCollision node1 node2 padding =
     (if parentNode node1 \<noteq> parentNode node2
      then \<lparr>colliding = False, overlapX = 0, overlapY = 0, distance = Infinity\<rparr>
      else
        let bounds1 = getNodeBounds node1;
            bounds2 = getNodeBounds node2;
            e1x = b_x bounds1 - padding / 2;
            e1y = b_y bounds1 - padding / 2;
            e1right = b_right bounds1 + padding / 2;
            e1bottom = b_bottom bounds1 + padding / 2;
            e2x = b_x bounds2 - padding / 2;
            e2y = b_y bounds2 - padding / 2;
            e2right = b_right bounds2 + padding / 2;
            e2bottom = b_bottom bounds2 + padding / 2;
            isColliding = (\<not> (e1right < e2x \<or> e1x > e2right \<or> e1bottom < e2y \<or> e1y > e2bottom));
            dx = b_centerX bounds1 - b_centerX bounds2;
            dy = b_centerY bounds1 - b_centerY bounds2;
            centerDist = sqrt (dx * dx + dy * dy)
        in if \<not> isColliding
           then \<lparr>colliding = False, overlapX = 0, overlapY = 0, distance = Num centerDist\<rparr>
           else \<lparr>colliding = True,
                 overlapX = min (e1right - e2x) (e2right - e1x),
                 overlapY = min (e1bottom - e2y) (e2bottom - e1y),
                 distance = Num centerDist\<rparr>)"

subsection \<open>Repulsion force\<close>

text \<open>
  \<^verbatim>\<open>calculateRepulsionForce(draggedNode, otherNode, allNodes)\<close>. The third parameter
  of the source is never read; in its place the model takes \<open>rnd\<close>, the value that
  \<^verbatim>\<open>Math.random()\<close> returns when the centres coincide. Where
  \<open>maxDimension\<close> is zero the quotient is not a finite number in JavaScript, and
  \<open>strength\<close> is then outside the number model.
\<close>

definition calculateRepulsionForce :: "node \<Rightarrow> node \<Rightarrow> real \<Rightarrow> force" where
  "calculateRepulsionForce draggedNode otherNode rnd =
     (if parentNode draggedNode \<noteq> parentNode otherNode
      then \<lparr>deltaX = 0, deltaY = 0, strength = 0\<rparr>
      else
        let bounds1 = getNodeBounds draggedNode;
            bounds2 = getNodeBounds otherNode;
            padding = calculateAdaptivePadding draggedNode otherNode;
            e1x = b_x bounds1 - padding;
            e1y = b_y bounds1 - padding;
            e1right = b_right bounds1 + padding;
            e1bottom = b_bottom bounds1 + padding;
            e1width = b_width bounds1 + padding * 2;
            e1height = b_height bounds1 + padding * 2;
            e2x = b_x bounds2 - padding;
            e2y = b_y bounds2 - padding;
            e2right = b_right bounds2 + padding;
            e2bottom = b_bottom bounds2 + padding;
            e2width = b_width bounds2 + padding * 2;
            e2height = b_height bounds2 + padding * 2;
            isOverlapping = (\<not> (e1right < e2x \<or> e1x > e2right \<or> e1bottom < e2y \<or> e1y > e2bottom))
        in if \<not> isOverlapping
           then \<lparr>deltaX = 0, deltaY = 0, strength = 0\<rparr>
           else
             let ovX = min (e1right - e2x) (e2right - e1x);
                 ovY = min (e1bottom - e2y) (e2bottom - e1y);
                 dx = b_centerX bounds1 - b_centerX bounds2;
                 dy = b_centerY bounds1 - b_centerY bounds2;
                 centerDist = sqrt (dx * dx + dy * dy)
             in if centerDist = 0
                then (let angle = rnd * pi * 2
                      in \<lparr>deltaX = cos angle * 30, deltaY = sin angle * 30, strength = 1\<rparr>)
                else
                  let minOverlap = min ovX ovY;
                      maxDimension = max (max (max e1width e1height) e2width) e2height;
                      normalizedOverlap = min (minOverlap / maxDimension) 1;
                      str = normalizedOverlap * normalizedOverlap * (3 - 2 * normalizedOverlap);
                      forceMagnitude = minOverlap * (8 / 10);
                      normalizedDx = dx / centerDist;
                      normalizedDy = dy / centerDist
                  in \<lparr>deltaX = normalizedDx * forceMagnitude,
                      deltaY = normalizedDy * forceMagnitude,
                      strength = str\<rparr>)"

subsection \<open>Placement search\<close>

definition otherNodesOf :: "node \<Rightarrow> node list \<Rightarrow> node list" where
  "otherNodesOf n allNodes =
     filter (\<lambda>m. node_id m \<noteq> node_id n \<and> node_type m \<noteq> ''district''
                 \<and> parentNode m = parentNode n) allNodes"

text \<open>\<^verbatim>\<open>district.style?.width || 1200\<close> and \<^verbatim>\<open>district.style?.height || 1000\<close>.\<close>

definition districtWidth :: "district \<Rightarrow> real" where
  "districtWidth d = (case d_style_width d of Some w \<Rightarrow> if w \<noteq> 0 then w else 1200 | None \<Rightarrow> 1200)"

definition districtHeight :: "district \<Rightarrow> real" where
  "districtHeight d = (case d_style_height d of Some h \<Rightarrow> if h \<noteq> 0 then h else 1000 | None \<Rightarrow> 1000)"

definition isWithinDistrictBounds :: "district option \<Rightarrow> real \<Rightarrow> pos \<Rightarrow> bounds \<Rightarrow> bool" where
  "isWithinDistrictBounds district padding p nodeBounds =
     (case district of
        None \<Rightarrow> True
      | Some d \<Rightarrow>
          px p \<ge> padding \<and> py p \<ge> padding \<and>
          px p + b_width nodeBounds \<le> districtWidth d - padding \<and>
          py p + b_height nodeBounds \<le> districtHeight d - padding)"

text \<open>The loop over \<open>otherNodes\<close> that stops at the first collision, each pair
  with its own adaptive padding. (\<open>minPadding\<close> of the source is written and never read.)\<close>

fun collidesWithAny :: "node \<Rightarrow> node list \<Rightarrow> bool" where
  "collidesWithAny t [] = False"
| "collidesWithAny t (otherNode # rest) =
     (let padding = calculateAdaptivePadding t otherNode;
          c = checkCollision t otherNode padding
      in if colliding c then True else collidesWithAny t rest)"

definition maxRadius :: real where
  "maxRadius = 2000"

definition maxIterations :: nat where
  "maxIterations = 100"

definition angleStep :: real where
  "angleStep = pi / 8"

definition positionsPerRadius :: nat where
  "positionsPerRadius = nat \<lfloor>(2 * pi) / angleStep\<rfloor>"

definition candidate :: "pos \<Rightarrow> real \<Rightarrow> real \<Rightarrow> nat \<Rightarrow> pos" where
  "candidate preferredPosition stepSize radius i =
     (let angle = (real i * angleStep) + (radius / stepSize) * (1 / 2)
      in \<lparr>px = px preferredPosition + cos angle * radius,
          py = py preferredPosition + sin angle * radius\<rparr>)"

text \<open>The inner loop over \<open>i\<close>, from \<open>i\<close> on: the first candidate that is in
  bounds and collides with no other node.\<close>

function probeRadius ::
  "node \<Rightarrow> node list \<Rightarrow> pos \<Rightarrow> district option \<Rightarrow> real \<Rightarrow> bounds \<Rightarrow> real \<Rightarrow> real \<Rightarrow> nat \<Rightarrow> pos option" where
  "probeRadius n otherNodes preferredPosition district padding nodeBounds stepSize radius i =
     (if i < positionsPerRadius \<and> i < maxIterations
      then
        let testPos = candidate preferredPosition stepSize radius i;
            testNodePos = n\<lparr>position := testPos\<rparr>
        in if \<not> isWithinDistrictBounds district padding testPos nodeBounds
           then probeRadius n otherNodes preferredPosition district padding nodeBounds stepSize radius (Suc i)
           else if \<not> collidesWithAny testNodePos otherNodes
           then Some testPos
           else probeRadius n otherNodes preferredPosition district padding nodeBounds stepSize radius (Suc i)
      else None)"
  by pat_completeness auto
termination
  by (relation "measure (\<lambda>(n, os, pp, d, p, nb, s, r, i). maxIterations - i)") auto

text \<open>The outer loop \<^verbatim>\<open>for (radius = stepSize; radius < maxRadius; radius += stepSize)\<close>,
  from \<open>radius\<close> on. It need not end (a step that is not positive): \<open>None\<close> is
  the loop that runs forever, \<open>Some None\<close> the loop that ends without a position.\<close>

partial_function (option) spiralSearch ::
  "node \<Rightarrow> node list \<Rightarrow> pos \<Rightarrow> district option \<Rightarrow> real \<Rightarrow> bounds \<Rightarrow> real \<Rightarrow> real \<Rightarrow> pos option option" where
  "spiralSearch n otherNodes preferredPosition district padding nodeBounds stepSize radius =
     (if radius < maxRadius
      then (case probeRadius n otherNodes preferredPosition district padding nodeBounds stepSize radius 0 of
              Some p \<Rightarrow> Some (Some p)
            | None \<Rightarrow> spiralSearch n otherNodes preferredPosition district padding nodeBounds stepSize (radius + stepSize))
      else Some None)"

text \<open>The last resort: the preferred position clamped into the district, or
  unchanged without a district.\<close>

definition clampToDistrict :: "district option \<Rightarrow> real \<Rightarrow> pos \<Rightarrow> bounds \<Rightarrow> pos" where
  "clampToDistrict district padding preferredPosition nodeBounds =
     (case district of
        Some d \<Rightarrow>
          \<lparr>px = max padding (min (px preferredPosition) (districtWidth d - b_width nodeBounds - padding)),
           py = max padding (min (py preferredPosition) (districtHeight d - b_height nodeBounds - padding))\<rparr>
      | None \<Rightarrow> preferredPosition)"

definition findValidPosition :: "node \<Rightarrow> node list \<Rightarrow> pos \<Rightarrow> district option \<Rightarrow> real \<Rightarrow> pos option" where
  "findValidPosition n allNodes preferredPosition district padding =
     (let otherNodes = otherNodesOf n allNodes;
          testNode = n\<lparr>position := preferredPosition\<rparr>;
          nodeBounds = getNodeBounds testNode;
          hasCollision = (if \<not> isWithinDistrictBounds district padding preferredPosition nodeBounds
                          then True
                          else collidesWithAny testNode otherNodes)
      in if \<not> hasCollision
         then Some preferredPosition
         else
           let stepSize = max (b_width nodeBounds) (b_height nodeBounds) * (1 / 10)
           in (case spiralSearch n otherNodes preferredPosition district padding nodeBounds stepSize stepSize of
                 None \<Rightarrow> None
               | Some (Some p) \<Rightarrow> Some p
               | Some None \<Rightarrow> Some (clampToDistrict district padding preferredPosition nodeBounds)))"

subsection \<open>Sample inputs and auxiliary notions\<close>

text \<open>A note card with an explicit size in its style.\<close>

definition sampleNode :: "string \<Rightarrow> real \<Rightarrow> real \<Rightarrow> real \<Rightarrow> real \<Rightarrow> parent \<Rightarrow> node" where
  "sampleNode ident x y w h par =
     \<lparr>node_id = ident, node_type = ''note'', position = \<lparr>px = x, py = y\<rparr>,
      style_width = Some w, style_height = Some h,
      data_width = JUndefined, data_height = JUndefined, parentNode = par\<rparr>"

text \<open>What a candidate position has to pass in \<^verbatim>\<open>findValidPosition\<close>: the bounds
  test, then no collision with any other node.\<close>

definition validAt :: "node \<Rightarrow> node list \<Rightarrow> district option \<Rightarrow> real \<Rightarrow> bounds \<Rightarrow> pos \<Rightarrow> bool" where
  "validAt n otherNodes district padding nodeBounds p \<longleftrightarrow>
     isWithinDistrictBounds district padding p nodeBounds \<and>
     \<not> collidesWithAny (n\<lparr>position := p\<rparr>) otherNodes"

text \<open>A note card whose data carries a numeric width and a height that is not a number.\<close>

definition mixedNode :: node where
  "mixedNode =
     \<lparr>node_id = ''n1'', node_type = ''note'', position = \<lparr>px = 0, py = 0\<rparr>,
      style_width = None, style_height = None,
      data_width = JNum 300, data_height = JStr ''tall'', parentNode = PUndefined\<rparr>"


text \<open>A district of 500 by 400, and a district with a height and no width.\<close>

definition smallDistrict :: district where
  "smallDistrict = \<lparr>d_style_width = Some 500, d_style_height = Some 400\<rparr>"


text \<open>Names for intermediate values of \<^verbatim>\<open>calculateRepulsionForce\<close>: the overlap
  test of the two repulsion zones (\<open>isOverlapping\<close>), the smaller overlap
  (\<open>minOverlap\<close>) and the distance of the centres (\<open>distance\<close>).\<close>

definition repulsionZonesOverlap :: "node \<Rightarrow> node \<Rightarrow> bool" where
  "repulsionZonesOverlap draggedNode otherNode =
     (let bounds1 = getNodeBounds draggedNode;
          bounds2 = getNodeBounds otherNode;
          padding = calculateAdaptivePadding draggedNode otherNode
      in \<not> (b_right bounds1 + padding < b_x bounds2 - padding \<or>
             b_x bounds1 - padding > b_right bounds2 + padding \<or>
             b_bottom bounds1 + padding < b_y bounds2 - padding \<or>
             b_y bounds1 - padding > b_bottom bounds2 + padding))"

definition repulsionMinOverlap :: "node \<Rightarrow> node \<Rightarrow> real" where
  "repulsionMinOverlap draggedNode otherNode =
     (let bounds1 = getNodeBounds draggedNode;
          bounds2 = getNodeBounds otherNode;
          padding = calculateAdaptivePadding draggedNode otherNode;
          ovX = min ((b_right bounds1 + padding) - (b_x bounds2 - padding))
                    ((b_right bounds2 + padding) - (b_x bounds1 - padding));
          ovY = min ((b_bottom bounds1 + padding) - (b_y bounds2 - padding))
                    ((b_bottom bounds2 + padding) - (b_y bounds1 - padding))
      in min ovX ovY)"

definition centerDistance :: "node \<Rightarrow> node \<Rightarrow> real" where
  "centerDistance a b =
     (let dx = b_centerX (getNodeBounds a) - b_centerX (getNodeBounds b);
          dy = b_centerY (getNodeBounds a) - b_centerY (getNodeBounds b)
      in sqrt (dx * dx + dy * dy))"

definition centersCoincide :: "node \<Rightarrow> node \<Rightarrow> bool" where
  "centersCoincide a b \<longleftrightarrow>
     b_centerX (getNodeBounds a) = b_centerX (getNodeBounds b) \<and>
     b_centerY (getNodeBounds a) = b_centerY (getNodeBounds b)"

text \<open>The dot product of the returned offset with the vector from the centre of the
  dragged node to the centre of the other node.\<close>

definition pushAlongAxis :: "node \<Rightarrow> node \<Rightarrow> real \<Rightarrow> real" where
  "pushAlongAxis draggedNode otherNode rnd =
     deltaX (calculateRepulsionForce draggedNode otherNode rnd)
       * (b_centerX (getNodeBounds otherNode) - b_centerX (getNodeBounds draggedNode))
     + deltaY (calculateRepulsionForce draggedNode otherNode rnd)
       * (b_centerY (getNodeBounds otherNode) - b_centerY (getNodeBounds draggedNode))"

section \<open>Basic facts\<close>

lemma getNodeBounds_sampleNode:
  "w \<noteq> 0 \<Longrightarrow> h \<noteq> 0 \<Longrightarrow> getNodeBounds (sampleNode i x y w h p) =
     \<lparr>b_x = x, b_y = y, b_width = w, b_height = h, b_centerX = x + w / 2, b_centerY = y + h / 2,
      b_right = x + w, b_bottom = y + h\<rparr>"
  by (simp add: getNodeBounds_def sampleNode_def resolveDimension_def explicitDimension_def Let_def)

lemma parentNode_sampleNode [simp]: "parentNode (sampleNode i x y w h p) = p"
  by (simp add: sampleNode_def)

lemma sampleNode_position:
  "(sampleNode i x y w h p)\<lparr>position := \<lparr>px = a, py = b\<rparr>\<rparr> = sampleNode i a b w h p"
  by (simp add: sampleNode_def)

text \<open>The collision flag, spelled out: same parent and no strict gap along any edge.\<close>

lemma colliding_iff:
  "colliding (checkCollision a b p) \<longleftrightarrow>
     parentNode a = parentNode b \<and>
     b_x (getNodeBounds b) - p / 2 \<le> b_right (getNodeBounds a) + p / 2 \<and>
     b_x (getNodeBounds a) - p / 2 \<le> b_right (getNodeBounds b) + p / 2 \<and>
     b_y (getNodeBounds b) - p / 2 \<le> b_bottom (getNodeBounds a) + p / 2 \<and>
     b_y (getNodeBounds a) - p / 2 \<le> b_bottom (getNodeBounds b) + p / 2"
  by (auto simp add: checkCollision_def Let_def)

lemma default_note: "getDefaultNodeSize ''note'' = \<lparr>s_width = 200, s_height = 150\<rparr>"
  by (simp add: getDefaultNodeSize_def DEFAULT_NODE_SIZES_def mk_size_def)

lemma getNodeBounds_position_size [simp]:
  "b_width (getNodeBounds (n\<lparr>position := q\<rparr>)) = b_width (getNodeBounds n)"
  "b_height (getNodeBounds (n\<lparr>position := q\<rparr>)) = b_height (getNodeBounds n)"
  by (simp_all add: getNodeBounds_def Let_def)

lemma adaptivePadding_sample:
  "calculateAdaptivePadding (sampleNode i 0 0 200 150 p) (sampleNode j x y 200 150 q) = 75 / 2"
  by (simp add: calculateAdaptivePadding_def getNodeBounds_sampleNode Let_def)

section \<open>Collision check\<close>

text \<open>
  C1, as the code has it. The claim reads: padded rectangles that touch exactly
  edge-to-edge are reported as not colliding. The test of the code is strict, so the
  flag is false exactly when a strict gap separates the padded rectangles along some
  edge; rectangles that only touch, with no gap elsewhere, collide.
\<close>

theorem checkCollision_false_iff_strict_gap:
  assumes "parentNode a = parentNode b"
  shows "\<not> colliding (checkCollision a b p) \<longleftrightarrow>
     (b_right (getNodeBounds a) + p / 2 < b_x (getNodeBounds b) - p / 2 \<or>
      b_x (getNodeBounds a) - p / 2 > b_right (getNodeBounds b) + p / 2 \<or>
      b_bottom (getNodeBounds a) + p / 2 < b_y (getNodeBounds b) - p / 2 \<or>
      b_y (getNodeBounds a) - p / 2 > b_bottom (getNodeBounds b) + p / 2)"
  using assms unfolding colliding_iff by auto

text \<open>At two 200 by 150 cards side by side, padding 20, the right edge of the first
  padded rectangle is the left edge of the second (both 210), and no edge has a strict gap.\<close>

theorem checkCollision_false_iff_strict_gap_witness:
  "parentNode (sampleNode ''a'' 0 0 200 150 PUndefined) = parentNode (sampleNode ''b'' 220 0 200 150 PUndefined)
   \<and> \<not> (\<not> colliding (checkCollision (sampleNode ''a'' 0 0 200 150 PUndefined)
                           (sampleNode ''b'' 220 0 200 150 PUndefined) 20))"
proof -
  have same: "parentNode (sampleNode ''a'' 0 0 200 150 PUndefined)
                = parentNode (sampleNode ''b'' 220 0 200 150 PUndefined)"
    by simp
  show ?thesis
    using checkCollision_false_iff_strict_gap [OF same, of 20]
    by (simp add: getNodeBounds_sampleNode)
qed

text \<open>C1, counterexample to the claim as stated: the padded rectangles touch exactly
  (right edge 210, left edge 210) and the collision flag is true.\<close>

theorem edge_touching_counterexample:
  "b_right (getNodeBounds (sampleNode ''a'' 0 0 200 150 PUndefined)) + 20 / 2
     = b_x (getNodeBounds (sampleNode ''b'' 220 0 200 150 PUndefined)) - 20 / 2
   \<and> colliding (checkCollision (sampleNode ''a'' 0 0 200 150 PUndefined)
                   (sampleNode ''b'' 220 0 200 150 PUndefined) 20)"
  by (simp add: colliding_iff getNodeBounds_sampleNode)

text \<open>
  C6: nodes whose \<open>parentNode\<close> differ (one of them may be unset) never interact:
  \<open>checkCollision\<close> returns no collision, zero overlaps and an infinite distance,
  and \<open>calculateRepulsionForce\<close> the zero force, for every position, padding and
  random draw.
\<close>

theorem cross_container_no_interaction:
  "parentNode a \<noteq> parentNode b \<Longrightarrow>
     checkCollision a b padding
       = \<lparr>colliding = False, overlapX = 0, overlapY = 0, distance = Infinity\<rparr>
     \<and> calculateRepulsionForce a b rnd = \<lparr>deltaX = 0, deltaY = 0, strength = 0\<rparr>"
  by (simp add: checkCollision_def calculateRepulsionForce_def)

theorem cross_container_no_interaction_witness:
  "parentNode (sampleNode ''a'' 0 0 200 150 (PId ''zone1'')) \<noteq> parentNode (sampleNode ''b'' 10 10 200 150 PUndefined)
   \<and> checkCollision (sampleNode ''a'' 0 0 200 150 (PId ''zone1'')) (sampleNode ''b'' 10 10 200 150 PUndefined) 30
       = \<lparr>colliding = False, overlapX = 0, overlapY = 0, distance = Infinity\<rparr>
   \<and> calculateRepulsionForce (sampleNode ''a'' 0 0 200 150 (PId ''zone1'')) (sampleNode ''b'' 10 10 200 150 PUndefined) 0
       = \<lparr>deltaX = 0, deltaY = 0, strength = 0\<rparr>"
  using cross_container_no_interaction
    [of "sampleNode ''a'' 0 0 200 150 (PId ''zone1'')" "sampleNode ''b'' 10 10 200 150 PUndefined" 30 0]
  by simp

text \<open>
  C7: for two nodes at fixed positions, if they do not collide with padding \<open>p1\<close>
  then they do not collide with any smaller padding \<open>p2\<close>.
\<close>

theorem non_collision_monotone:
  "\<not> colliding (checkCollision a b p1) \<Longrightarrow> p2 < p1 \<Longrightarrow> \<not> colliding (checkCollision a b p2)"
  unfolding colliding_iff by linarith

theorem non_collision_monotone_witness:
  "\<not> colliding (checkCollision (sampleNode ''a'' 0 0 200 150 PUndefined)
                   (sampleNode ''b'' 500 500 200 150 PUndefined) 40)
   \<and> (10::real) < 40
   \<and> \<not> colliding (checkCollision (sampleNode ''a'' 0 0 200 150 PUndefined)
                     (sampleNode ''b'' 500 500 200 150 PUndefined) 10)"
proof -
  have h1: "\<not> colliding (checkCollision (sampleNode ''a'' 0 0 200 150 PUndefined)
                   (sampleNode ''b'' 500 500 200 150 PUndefined) 40)"
    by (simp add: colliding_iff getNodeBounds_sampleNode)
  have h2: "(10::real) < 40" by simp
  show ?thesis
    using h1 h2 non_collision_monotone [OF h1 h2] by simp
qed

text \<open>
  C9, as the code has it. The claim reads: with E1 at (0,0) and E2 at (500,500), both
  200 by 150 in the same container, and padding 37.5, there is no collision and the
  distance of the centres is about 678.8. There is no collision; the centres are
  (100,75) and (600,575), so the distance is the square root of 500000, between
  707.1 and 707.2.
\<close>

theorem scenario_B_distance:
  "colliding (checkCollision (sampleNode ''E1'' 0 0 200 150 PUndefined)
                (sampleNode ''E2'' 500 500 200 150 PUndefined) (75 / 2)) = False
   \<and> distance (checkCollision (sampleNode ''E1'' 0 0 200 150 PUndefined)
                  (sampleNode ''E2'' 500 500 200 150 PUndefined) (75 / 2)) = Num (sqrt 500000)
   \<and> 707.1 < sqrt 500000 \<and> sqrt 500000 < 707.2"
proof -
  have "(707.1::real)\<^sup>2 < 500000" by (simp add: power2_eq_square)
  then have lo: "707.1 < sqrt 500000" by (rule real_less_rsqrt)
  have "(500000::real) < 707.2\<^sup>2" by (simp add: power2_eq_square)
  then have hi: "sqrt 500000 < 707.2" by (intro real_less_lsqrt) simp_all
  show ?thesis using lo hi
    by (simp add: checkCollision_def getNodeBounds_sampleNode Let_def)
qed

text \<open>C9, counterexample to the claim as stated: the distance returned in the scenario
  exceeds 678.8 by more than 28.\<close>

theorem scenario_B_distance_counterexample:
  "distance (checkCollision (sampleNode ''E1'' 0 0 200 150 PUndefined)
               (sampleNode ''E2'' 500 500 200 150 PUndefined) (75 / 2)) = Num (sqrt 500000)
   \<and> 678.8 + 28 < sqrt 500000"
proof -
  have "((678.8::real) + 28)\<^sup>2 < 500000" by (simp add: power2_eq_square)
  then have "678.8 + 28 < sqrt 500000" by (rule real_less_rsqrt)
  then show ?thesis
    by (simp add: checkCollision_def getNodeBounds_sampleNode Let_def)
qed

section \<open>Bounds\<close>

text \<open>
  C3, as the code has it. The claim reads: a node whose explicit size is malformed
  takes the default width and the default height of its type, never one explicit and
  one default dimension. The code resolves each dimension on its own: when one
  dimension has a usable explicit value and the other has none, the bounds take the
  explicit value for the first and the default of the type for the second.
\<close>

theorem getNodeBounds_resolves_each_dimension:
  "(explicitDimension (style_width n) (data_width n) = Some w \<and>
    explicitDimension (style_height n) (data_height n) = None \<longrightarrow>
      b_width (getNodeBounds n) = w \<and>
      b_height (getNodeBounds n) = s_height (getDefaultNodeSize (node_type n)))
   \<and> (explicitDimension (style_width n) (data_width n) = None \<and>
      explicitDimension (style_height n) (data_height n) = Some h \<longrightarrow>
      b_width (getNodeBounds n) = s_width (getDefaultNodeSize (node_type n)) \<and>
      b_height (getNodeBounds n) = h)"
  by (simp add: getNodeBounds_def resolveDimension_def Let_def)

theorem getNodeBounds_resolves_each_dimension_witness:
  "explicitDimension (style_width mixedNode) (data_width mixedNode) = Some 300
   \<and> explicitDimension (style_height mixedNode) (data_height mixedNode) = None
   \<and> b_width (getNodeBounds mixedNode) = 300
   \<and> b_height (getNodeBounds mixedNode) = s_height (getDefaultNodeSize (node_type mixedNode))
   \<and> explicitDimension (style_width (sampleNode ''n2'' 0 0 0 80 PUndefined))
        (data_width (sampleNode ''n2'' 0 0 0 80 PUndefined)) = None
   \<and> explicitDimension (style_height (sampleNode ''n2'' 0 0 0 80 PUndefined))
        (data_height (sampleNode ''n2'' 0 0 0 80 PUndefined)) = Some 80
   \<and> b_width (getNodeBounds (sampleNode ''n2'' 0 0 0 80 PUndefined))
        = s_width (getDefaultNodeSize (node_type (sampleNode ''n2'' 0 0 0 80 PUndefined)))
   \<and> b_height (getNodeBounds (sampleNode ''n2'' 0 0 0 80 PUndefined)) = 80"
proof -
  have a: "explicitDimension (style_width mixedNode) (data_width mixedNode) = Some 300"
    and b: "explicitDimension (style_height mixedNode) (data_height mixedNode) = None"
    by (simp_all add: mixedNode_def explicitDimension_def)
  have c: "explicitDimension (style_width (sampleNode ''n2'' 0 0 0 80 PUndefined))
        (data_width (sampleNode ''n2'' 0 0 0 80 PUndefined)) = None"
    and d: "explicitDimension (style_height (sampleNode ''n2'' 0 0 0 80 PUndefined))
        (data_height (sampleNode ''n2'' 0 0 0 80 PUndefined)) = Some 80"
    by (simp_all add: sampleNode_def explicitDimension_def)
  show ?thesis
    using a b c d
      getNodeBounds_resolves_each_dimension [of mixedNode 300 0]
      getNodeBounds_resolves_each_dimension [of "sampleNode ''n2'' 0 0 0 80 PUndefined" 0 80]
    by simp
qed

text \<open>C3, counterexample to the claim as stated: the data of the node has a numeric
  width 300 and a height that is a string; the height is the default 150 of a note,
  the width is the explicit 300 and not the default 200.\<close>

theorem all_or_nothing_size_counterexample:
  "data_width mixedNode = JNum 300 \<and> data_height mixedNode = JStr ''tall''
   \<and> getDefaultNodeSize (node_type mixedNode) = \<lparr>s_width = 200, s_height = 150\<rparr>
   \<and> b_height (getNodeBounds mixedNode) = 150
   \<and> b_width (getNodeBounds mixedNode) = 300"
  by (simp add: mixedNode_def getNodeBounds_def resolveDimension_def explicitDimension_def
      Let_def default_note)


section \<open>Repulsion force\<close>

lemma centerDistance_zero_iff: "centerDistance a b = 0 \<longleftrightarrow> centersCoincide a b"
  by (simp add: centerDistance_def centersCoincide_def Let_def)

lemma centerDistance_nonneg: "0 \<le> centerDistance a b"
  by (simp add: centerDistance_def Let_def)

lemma repulsionMinOverlap_nonneg:
  "repulsionZonesOverlap a b \<Longrightarrow> 0 \<le> repulsionMinOverlap a b"
  unfolding repulsionZonesOverlap_def repulsionMinOverlap_def Let_def by linarith

text \<open>Outside the repulsion zone, and across parents, the force is zero.\<close>

lemma repulsion_zero_outside:
  assumes "\<not> repulsionZonesOverlap a b"
  shows "calculateRepulsionForce a b rnd = \<lparr>deltaX = 0, deltaY = 0, strength = 0\<rparr>"
proof (cases "parentNode a = parentNode b")
  case False
  then show ?thesis by (simp add: calculateRepulsionForce_def)
next
  case True
  then have c1: "(parentNode a \<noteq> parentNode b) = False" by simp
  note c2 = assms[unfolded repulsionZonesOverlap_def Let_def]
  show ?thesis
    unfolding calculateRepulsionForce_def Let_def
    by (simp only: c1 c2 simp_thms if_False if_True)
qed

text \<open>Inside the zone with distinct centres the random draw is not read.\<close>

lemma repulsion_same_draw:
  assumes "parentNode a = parentNode b" "repulsionZonesOverlap a b" "\<not> centersCoincide a b"
  shows "calculateRepulsionForce a b r1 = calculateRepulsionForce a b r2"
proof -
  have c1: "(parentNode a \<noteq> parentNode b) = False" using assms(1) by simp
  note c2 = assms(2)[unfolded repulsionZonesOverlap_def Let_def]
  have "centerDistance a b \<noteq> 0" using assms(3) by (simp add: centerDistance_zero_iff)
  note c3 = this[unfolded centerDistance_def Let_def]
  show ?thesis
    unfolding calculateRepulsionForce_def Let_def
    by (simp only: c1 c2 c3 simp_thms if_False if_True)
qed

lemma repulsion_delta:
  assumes "parentNode a = parentNode b" "repulsionZonesOverlap a b" "\<not> centersCoincide a b"
  shows "deltaX (calculateRepulsionForce a b rnd) =
           (b_centerX (getNodeBounds a) - b_centerX (getNodeBounds b)) / centerDistance a b
             * (repulsionMinOverlap a b * (8 / 10))"
    and "deltaY (calculateRepulsionForce a b rnd) =
           (b_centerY (getNodeBounds a) - b_centerY (getNodeBounds b)) / centerDistance a b
             * (repulsionMinOverlap a b * (8 / 10))"
proof -
  have c1: "(parentNode a \<noteq> parentNode b) = False" using assms(1) by simp
  note c2 = assms(2)[unfolded repulsionZonesOverlap_def Let_def]
  have "centerDistance a b \<noteq> 0" using assms(3) by (simp add: centerDistance_zero_iff)
  note c3 = this[unfolded centerDistance_def Let_def]
  show "deltaX (calculateRepulsionForce a b rnd) =
           (b_centerX (getNodeBounds a) - b_centerX (getNodeBounds b)) / centerDistance a b
             * (repulsionMinOverlap a b * (8 / 10))"
    unfolding calculateRepulsionForce_def centerDistance_def repulsionMinOverlap_def Let_def
    by (simp only: c1 c2 c3 simp_thms if_False if_True force.simps)
  show "deltaY (calculateRepulsionForce a b rnd) =
           (b_centerY (getNodeBounds a) - b_centerY (getNodeBounds b)) / centerDistance a b
             * (repulsionMinOverlap a b * (8 / 10))"
    unfolding calculateRepulsionForce_def centerDistance_def repulsionMinOverlap_def Let_def
    by (simp only: c1 c2 c3 simp_thms if_False if_True force.simps)
qed

lemma dot_formula:
  fixes dx dy d m :: real
  assumes "d = sqrt (dx * dx + dy * dy)" "d \<noteq> 0"
  shows "(dx / d * m) * (- dx) + (dy / d * m) * (- dy) = - (d * m)"
proof -
  have sq: "dx * dx + dy * dy = d * d" using assms(1) by simp
  have "(dx / d * m) * (- dx) + (dy / d * m) * (- dy) = - ((dx * dx + dy * dy) * m / d)"
    using assms(2) by (simp add: field_simps)
  also have "\<dots> = - ((d * d) * m / d)" by (simp only: sq)
  also have "\<dots> = - (d * m)" using assms(2) by simp
  finally show ?thesis .
qed

text \<open>The offset along the axis from the dragged node to the other node is minus the
  force magnitude times the distance of the centres.\<close>

lemma pushAlongAxis_value:
  assumes "parentNode a = parentNode b" "repulsionZonesOverlap a b" "\<not> centersCoincide a b"
  shows "pushAlongAxis a b rnd = - (centerDistance a b * (repulsionMinOverlap a b * (8 / 10)))"
proof -
  let ?dx = "b_centerX (getNodeBounds a) - b_centerX (getNodeBounds b)"
  let ?dy = "b_centerY (getNodeBounds a) - b_centerY (getNodeBounds b)"
  let ?d = "centerDistance a b"
  let ?m = "repulsionMinOverlap a b * (8 / 10)"
  have nz: "?d \<noteq> 0" using assms(3) by (simp add: centerDistance_zero_iff)
  have d: "?d = sqrt (?dx * ?dx + ?dy * ?dy)" by (simp add: centerDistance_def Let_def)
  have "(?dx / ?d * ?m) * (- ?dx) + (?dy / ?d * ?m) * (- ?dy) = - (?d * ?m)"
    by (rule dot_formula[OF d nz])
  then show ?thesis
    by (simp add: pushAlongAxis_def repulsion_delta[OF assms])
qed

lemma repulsion_sample_value:
  "calculateRepulsionForce (sampleNode ''dragged'' 0 0 200 150 PUndefined)
       (sampleNode ''other'' 100 0 200 150 PUndefined) rnd
     = \<lparr>deltaX = - 140, deltaY = 0, strength = 931 / 1331\<rparr>"
proof -
  have "sqrt 10000 = 100" by (rule real_sqrt_unique) simp_all
  then show ?thesis
    by (simp add: calculateRepulsionForce_def adaptivePadding_sample getNodeBounds_sampleNode Let_def)
qed

lemma repulsion_sample_facts:
  "repulsionZonesOverlap (sampleNode ''dragged'' 0 0 200 150 PUndefined)
       (sampleNode ''other'' 100 0 200 150 PUndefined)"
  "\<not> centersCoincide (sampleNode ''dragged'' 0 0 200 150 PUndefined)
       (sampleNode ''other'' 100 0 200 150 PUndefined)"
  "repulsionMinOverlap (sampleNode ''dragged'' 0 0 200 150 PUndefined)
       (sampleNode ''other'' 100 0 200 150 PUndefined) = 175"
  by (simp_all add: repulsionZonesOverlap_def centersCoincide_def repulsionMinOverlap_def
      adaptivePadding_sample getNodeBounds_sampleNode Let_def)

text \<open>
  C2, as the code has it. The claim reads: for same-container nodes whose repulsion
  zones overlap and whose centres differ, the returned offset has a positive dot product
  with the vector from the centre of the dragged node to the centre of the other node.
  The code takes the direction from the other node to the dragged node
  (\<open>dx = bounds1.centerX - bounds2.centerX\<close> with \<open>bounds1\<close> the dragged node),
  so that dot product is never positive, and it is negative as soon as the zones
  overlap by more than a touch.
\<close>

theorem repulsion_offset_points_to_dragged:
  assumes "parentNode dragged = parentNode other"
    and "repulsionZonesOverlap dragged other"
    and "\<not> centersCoincide dragged other"
  shows "pushAlongAxis dragged other rnd \<le> 0
       \<and> (0 < repulsionMinOverlap dragged other \<longrightarrow> pushAlongAxis dragged other rnd < 0)"
proof -
  have pos: "0 < centerDistance dragged other"
    using assms(3) centerDistance_nonneg[of dragged other] centerDistance_zero_iff[of dragged other]
    by linarith
  have nonneg: "0 \<le> repulsionMinOverlap dragged other"
    by (rule repulsionMinOverlap_nonneg[OF assms(2)])
  have "0 \<le> centerDistance dragged other * (repulsionMinOverlap dragged other * (8 / 10))"
    using pos nonneg by simp
  moreover have "0 < centerDistance dragged other * (repulsionMinOverlap dragged other * (8 / 10))"
    if "0 < repulsionMinOverlap dragged other"
    using pos that by simp
  ultimately show ?thesis
    unfolding pushAlongAxis_value[OF assms] by simp
qed

theorem repulsion_offset_points_to_dragged_witness:
  "parentNode (sampleNode ''dragged'' 0 0 200 150 PUndefined)
     = parentNode (sampleNode ''other'' 100 0 200 150 PUndefined)
   \<and> repulsionZonesOverlap (sampleNode ''dragged'' 0 0 200 150 PUndefined)
        (sampleNode ''other'' 100 0 200 150 PUndefined)
   \<and> \<not> centersCoincide (sampleNode ''dragged'' 0 0 200 150 PUndefined)
        (sampleNode ''other'' 100 0 200 150 PUndefined)
   \<and> 0 < repulsionMinOverlap (sampleNode ''dragged'' 0 0 200 150 PUndefined)
        (sampleNode ''other'' 100 0 200 150 PUndefined)
   \<and> pushAlongAxis (sampleNode ''dragged'' 0 0 200 150 PUndefined)
        (sampleNode ''other'' 100 0 200 150 PUndefined) 0 < 0"
proof -
  have same: "parentNode (sampleNode ''dragged'' 0 0 200 150 PUndefined)
     = parentNode (sampleNode ''other'' 100 0 200 150 PUndefined)" by simp
  have depth: "0 < repulsionMinOverlap (sampleNode ''dragged'' 0 0 200 150 PUndefined)
        (sampleNode ''other'' 100 0 200 150 PUndefined)"
    by (simp add: repulsion_sample_facts(3))
  show ?thesis
    using same depth repulsion_sample_facts(1,2)
      repulsion_offset_points_to_dragged [OF same repulsion_sample_facts(1,2), of 0]
    by simp
qed

text \<open>C2, counterexample to the claim as stated: the dragged card at (0,0) and the other
  card at (100,0), both 200 by 150. The offset is (-140, 0): applied to the other card
  it moves it to the left, towards the dragged card and past it; its dot product with
  the vector (100, 0) between the centres is -14000.\<close>

theorem repulsion_direction_counterexample:
  "parentNode (sampleNode ''dragged'' 0 0 200 150 PUndefined)
     = parentNode (sampleNode ''other'' 100 0 200 150 PUndefined)
   \<and> repulsionZonesOverlap (sampleNode ''dragged'' 0 0 200 150 PUndefined)
        (sampleNode ''other'' 100 0 200 150 PUndefined)
   \<and> \<not> centersCoincide (sampleNode ''dragged'' 0 0 200 150 PUndefined)
        (sampleNode ''other'' 100 0 200 150 PUndefined)
   \<and> deltaX (calculateRepulsionForce (sampleNode ''dragged'' 0 0 200 150 PUndefined)
        (sampleNode ''other'' 100 0 200 150 PUndefined) 0) = - 140
   \<and> deltaY (calculateRepulsionForce (sampleNode ''dragged'' 0 0 200 150 PUndefined)
        (sampleNode ''other'' 100 0 200 150 PUndefined) 0) = 0
   \<and> pushAlongAxis (sampleNode ''dragged'' 0 0 200 150 PUndefined)
        (sampleNode ''other'' 100 0 200 150 PUndefined) 0 = - 14000"
  using repulsion_sample_facts(1,2)
  by (simp add: pushAlongAxis_def repulsion_sample_value getNodeBounds_sampleNode)

text \<open>
  C8, as the code has it. The claim reads: every operation is a deterministic function
  of its arguments, \<open>calculateRepulsionForce\<close> also when the centres coincide. The
  code draws \<^verbatim>\<open>Math.random()\<close> exactly when the parents are equal, the zones overlap
  and the centres coincide; in every other case the result does not depend on the draw.
\<close>

theorem repulsion_independent_of_draw:
  "parentNode a \<noteq> parentNode b \<or> \<not> repulsionZonesOverlap a b \<or> \<not> centersCoincide a b \<Longrightarrow>
     calculateRepulsionForce a b r1 = calculateRepulsionForce a b r2"
  using repulsion_same_draw[of a b r1 r2] repulsion_zero_outside[of a b]
  by (cases "parentNode a = parentNode b"; cases "repulsionZonesOverlap a b")
     (simp_all add: calculateRepulsionForce_def)

theorem repulsion_independent_of_draw_witness:
  "\<not> centersCoincide (sampleNode ''dragged'' 0 0 200 150 PUndefined)
        (sampleNode ''other'' 100 0 200 150 PUndefined)
   \<and> calculateRepulsionForce (sampleNode ''dragged'' 0 0 200 150 PUndefined)
        (sampleNode ''other'' 100 0 200 150 PUndefined) 0
     = calculateRepulsionForce (sampleNode ''dragged'' 0 0 200 150 PUndefined)
        (sampleNode ''other'' 100 0 200 150 PUndefined) (1 / 4)"
  using repulsion_sample_facts(2)
    repulsion_independent_of_draw [of "sampleNode ''dragged'' 0 0 200 150 PUndefined"
      "sampleNode ''other'' 100 0 200 150 PUndefined" 0 "1 / 4"]
  by blast

text \<open>C8, counterexample to the claim as stated: two cards with the same centre, the
  same arguments, and two draws of \<^verbatim>\<open>Math.random()\<close>, 0 and 1/4: the offsets are
  (30, 0) and (0, 30).\<close>

theorem repulsion_random_counterexample:
  "centersCoincide (sampleNode ''a'' 0 0 200 150 PUndefined) (sampleNode ''b'' 0 0 200 150 PUndefined)
   \<and> calculateRepulsionForce (sampleNode ''a'' 0 0 200 150 PUndefined)
        (sampleNode ''b'' 0 0 200 150 PUndefined) 0
       = \<lparr>deltaX = 30, deltaY = 0, strength = 1\<rparr>
   \<and> calculateRepulsionForce (sampleNode ''a'' 0 0 200 150 PUndefined)
        (sampleNode ''b'' 0 0 200 150 PUndefined) (1 / 4)
       = \<lparr>deltaX = 0, deltaY = 30, strength = 1\<rparr>"
  by (simp add: centersCoincide_def calculateRepulsionForce_def adaptivePadding_sample
      getNodeBounds_sampleNode Let_def)


section \<open>Placement search\<close>

lemma collidesWithAny_iff:
  "collidesWithAny t os \<longleftrightarrow>
     (\<exists>m \<in> set os. colliding (checkCollision t m (calculateAdaptivePadding t m)))"
  by (induction os) (auto simp add: Let_def)

text \<open>A position returned by the inner loop passed both tests and is one of the
  candidates of this radius.\<close>

lemma probeRadius_Some:
  "probeRadius n os pp d pad nb s r i = Some p \<Longrightarrow>
     validAt n os d pad nb p \<and> (\<exists>j. p = candidate pp s r j)"
proof (induction n os pp d pad nb s r i rule: probeRadius.induct)
  case (1 n os pp d pad nb s r i)
  show ?case
  proof (cases "i < positionsPerRadius \<and> i < maxIterations")
    case False
    with "1.prems" show ?thesis by simp
  next
    case True
    let ?c = "candidate pp s r i"
    show ?thesis
    proof (cases "isWithinDistrictBounds d pad ?c nb")
      case False
      with True "1.prems" "1.IH"(1) show ?thesis by (simp add: Let_def)
    next
      case inb: True
      show ?thesis
      proof (cases "collidesWithAny (n\<lparr>position := ?c\<rparr>) os")
        case True
        with \<open>i < positionsPerRadius \<and> i < maxIterations\<close> inb "1.prems" "1.IH"(2) show ?thesis
          by (simp add: Let_def)
      next
        case False
        with True inb "1.prems" show ?thesis by (auto simp add: Let_def validAt_def)
      qed
    qed
  qed
qed

text \<open>With a positive step the outer loop ends, from every radius: the number of
  radii still below the cap decreases. A position it returns is a valid candidate of
  a radius below the cap.\<close>

lemma spiralSearch_terminates:
  assumes "0 < s"
  shows "\<exists>res. spiralSearch n os pp d pad nb s r = Some res \<and>
           (\<forall>p. res = Some p \<longrightarrow> validAt n os d pad nb p \<and>
              (\<exists>r' j. r \<le> r' \<and> r' < maxRadius \<and> p = candidate pp s r' j))"
proof (induction "nat \<lceil>(maxRadius - r) / s\<rceil>" arbitrary: r rule: less_induct)
  case less
  show ?case
  proof (cases "r < maxRadius")
    case False
    then show ?thesis by (subst spiralSearch.simps) simp
  next
    case True
    show ?thesis
    proof (cases "probeRadius n os pp d pad nb s r 0")
      case (Some p)
      from probeRadius_Some[OF Some] True
      have "validAt n os d pad nb p \<and> (\<exists>r' j. r \<le> r' \<and> r' < maxRadius \<and> p = candidate pp s r' j)"
        by auto
      with True Some show ?thesis
        by (subst spiralSearch.simps) simp
    next
      case None
      have "(maxRadius - (r + s)) / s = (maxRadius - r) / s - 1"
        using assms by (simp add: field_simps)
      moreover have "0 < (maxRadius - r) / s" using True assms by simp
      ultimately have "nat \<lceil>(maxRadius - (r + s)) / s\<rceil> < nat \<lceil>(maxRadius - r) / s\<rceil>"
        by linarith
      from less[OF this] obtain res where res:
        "spiralSearch n os pp d pad nb s (r + s) = Some res"
        "\<forall>p. res = Some p \<longrightarrow> validAt n os d pad nb p \<and>
              (\<exists>r' j. r + s \<le> r' \<and> r' < maxRadius \<and> p = candidate pp s r' j)" by blast
      have "\<forall>p. res = Some p \<longrightarrow> validAt n os d pad nb p \<and>
              (\<exists>r' j. r \<le> r' \<and> r' < maxRadius \<and> p = candidate pp s r' j)"
      proof (intro allI impI)
        fix p assume "res = Some p"
        with res(2) obtain r' j where "validAt n os d pad nb p"
          "r + s \<le> r'" "r' < maxRadius" "p = candidate pp s r' j" by blast
        moreover from this assms have "r \<le> r'" by linarith
        ultimately show "validAt n os d pad nb p \<and>
              (\<exists>r' j. r \<le> r' \<and> r' < maxRadius \<and> p = candidate pp s r' j)" by blast
      qed
      with True None res(1) show ?thesis
        by (subst spiralSearch.simps) simp
    qed
  qed
qed

text \<open>When no candidate of any radius from \<open>r\<close> on passes the bounds test, the
  spiral ends without a position.\<close>

lemma spiralSearch_out_of_bounds:
  assumes "0 < s"
    and "\<And>r' j. r \<le> r' \<Longrightarrow> r' < maxRadius \<Longrightarrow>
           \<not> isWithinDistrictBounds d pad (candidate pp s r' j) nb"
  shows "spiralSearch n os pp d pad nb s r = Some None"
proof -
  from spiralSearch_terminates[OF assms(1), of n os pp d pad nb r]
  obtain res where res: "spiralSearch n os pp d pad nb s r = Some res"
    "\<forall>p. res = Some p \<longrightarrow> validAt n os d pad nb p \<and>
              (\<exists>r' j. r \<le> r' \<and> r' < maxRadius \<and> p = candidate pp s r' j)" by blast
  have "res = None"
  proof (cases res)
    case (Some p)
    with res(2) obtain r' j where "isWithinDistrictBounds d pad p nb"
      "r \<le> r'" "r' < maxRadius" "p = candidate pp s r' j"
      unfolding validAt_def by blast
    with assms(2) show ?thesis by blast
  qed simp
  with res(1) show ?thesis by simp
qed


text \<open>The three exits of \<^verbatim>\<open>findValidPosition\<close>.\<close>

lemma findValidPosition_cases:
  assumes "0 < max (b_width (getNodeBounds n)) (b_height (getNodeBounds n))"
  shows "\<exists>p. findValidPosition n allNodes pp d pad = Some p \<and>
           (validAt n (otherNodesOf n allNodes) d pad (getNodeBounds (n\<lparr>position := pp\<rparr>)) p
            \<or> p = clampToDistrict d pad pp (getNodeBounds (n\<lparr>position := pp\<rparr>)))"
proof -
  let ?os = "otherNodesOf n allNodes"
  let ?nb = "getNodeBounds (n\<lparr>position := pp\<rparr>)"
  let ?s = "max (b_width ?nb) (b_height ?nb) * (1 / 10)"
  show ?thesis
  proof (cases "validAt n ?os d pad ?nb pp")
    case True
    then show ?thesis by (simp add: findValidPosition_def validAt_def Let_def)
  next
    case False
    have "0 < ?s" using assms by simp
    from spiralSearch_terminates[OF this, of n ?os pp d pad ?nb ?s]
    obtain res where res: "spiralSearch n ?os pp d pad ?nb ?s ?s = Some res"
      "\<forall>p. res = Some p \<longrightarrow> validAt n ?os d pad ?nb p" by blast
    have eq: "findValidPosition n allNodes pp d pad =
        (case res of Some p \<Rightarrow> Some p | None \<Rightarrow> Some (clampToDistrict d pad pp ?nb))"
      using False res(1) unfolding findValidPosition_def validAt_def Let_def
      by (auto split: option.splits)
    show ?thesis using res(2) unfolding eq by (cases res) auto
  qed
qed


text \<open>The filtered nodes and the collision loop over them, spelled out.\<close>

lemma collision_free_iff:
  "\<not> collidesWithAny t (otherNodesOf n allNodes) \<longleftrightarrow>
     (\<forall>m \<in> set allNodes.
        node_id m \<noteq> node_id n \<and> node_type m \<noteq> ''district'' \<and> parentNode m = parentNode n \<longrightarrow>
        \<not> colliding (checkCollision t m (calculateAdaptivePadding t m)))"
  unfolding collidesWithAny_iff otherNodesOf_def by auto


lemma clampToDistrict_explicit:
  assumes "W = (case d_style_width d of None \<Rightarrow> 1200 | Some w \<Rightarrow> if w \<noteq> 0 then w else 1200)"
    and "H = (case d_style_height d of None \<Rightarrow> 1000 | Some h \<Rightarrow> if h \<noteq> 0 then h else 1000)"
  shows "clampToDistrict (Some d) padding pp nb =
     \<lparr>px = max padding (min (px pp) (W - b_width nb - padding)),
      py = max padding (min (py pp) (H - b_height nb - padding))\<rparr>"
  unfolding assms clampToDistrict_def districtWidth_def districtHeight_def
  by (auto split: option.splits)

lemma clamp_fits:
  fixes W H wd ht padding :: real
  assumes "wd + 2 * padding \<le> W" and "ht + 2 * padding \<le> H"
  shows "padding \<le> max padding (min x (W - wd - padding))
     \<and> padding \<le> max padding (min y (H - ht - padding))
     \<and> max padding (min x (W - wd - padding)) + wd \<le> W - padding
     \<and> max padding (min y (H - ht - padding)) + ht \<le> H - padding"
  using assms by (auto simp add: max_def min_def)

text \<open>
  C4: the spiral phase probes 8 candidate points at each radius. The angle step of
  the code is \<open>pi / 8\<close>, under the comment "8 directions per radius", and the
  number of positions is the floor of \<open>2 pi / (pi / 8)\<close>: 16 positions at each
  radius, all below the iteration cap of 100.
\<close>

theorem spiral_probes_sixteen_positions:
  "positionsPerRadius = 16 \<and> min positionsPerRadius maxIterations = 16"
  by (simp add: positionsPerRadius_def angleStep_def maxIterations_def)

text \<open>
  C5, as the code has it. The claim reads: for a node of positive width and height
  \<open>findValidPosition\<close> returns, and the position is free of collisions with every
  filtered node or is the preferred position clamped into the padded bounds of the
  district. It returns; the position collides with none of the filtered nodes (each
  pair with its own adaptive padding), or it is the fallback: the preferred position
  itself without a district, and with a district of effective size \<open>W\<close> by \<open>H\<close>
  the point with \<open>x = max padding (min x\<^sub>0 (W - width - padding))\<close> and \<open>y\<close>
  likewise. The fallback keeps the node inside the padded bounds when the node fits
  into them.
\<close>

theorem findValidPosition_returns_free_or_fallback:
  assumes "0 < b_width (getNodeBounds n)" and "0 < b_height (getNodeBounds n)"
  shows "\<exists>p. findValidPosition n allNodes preferredPosition district padding = Some p \<and>
     ((\<forall>m \<in> set allNodes.
          node_id m \<noteq> node_id n \<and> node_type m \<noteq> ''district'' \<and> parentNode m = parentNode n \<longrightarrow>
          \<not> colliding (checkCollision (n\<lparr>position := p\<rparr>) m
                          (calculateAdaptivePadding (n\<lparr>position := p\<rparr>) m)))
      \<or> (case district of
            None \<Rightarrow> p = preferredPosition
          | Some d \<Rightarrow>
              (let W = (case d_style_width d of None \<Rightarrow> 1200 | Some w \<Rightarrow> if w \<noteq> 0 then w else 1200);
                   H = (case d_style_height d of None \<Rightarrow> 1000 | Some h \<Rightarrow> if h \<noteq> 0 then h else 1000);
                   wd = b_width (getNodeBounds n);
                   ht = b_height (getNodeBounds n)
               in p = \<lparr>px = max padding (min (px preferredPosition) (W - wd - padding)),
                        py = max padding (min (py preferredPosition) (H - ht - padding))\<rparr>
                  \<and> (wd + 2 * padding \<le> W \<and> ht + 2 * padding \<le> H \<longrightarrow>
                       padding \<le> px p \<and> padding \<le> py p \<and>
                       px p + wd \<le> W - padding \<and> py p + ht \<le> H - padding))))"
proof -
  let ?nb = "getNodeBounds (n\<lparr>position := preferredPosition\<rparr>)"
  from assms have "0 < max (b_width (getNodeBounds n)) (b_height (getNodeBounds n))" by simp
  from findValidPosition_cases[OF this, of allNodes preferredPosition district padding]
  obtain p where p: "findValidPosition n allNodes preferredPosition district padding = Some p"
    and alt: "validAt n (otherNodesOf n allNodes) district padding ?nb p
              \<or> p = clampToDistrict district padding preferredPosition ?nb" by blast
  from alt show ?thesis
  proof
    assume "validAt n (otherNodesOf n allNodes) district padding ?nb p"
    then have "\<not> collidesWithAny (n\<lparr>position := p\<rparr>) (otherNodesOf n allNodes)"
      by (simp add: validAt_def)
    then show ?thesis using p unfolding collision_free_iff by blast
  next
    assume fb: "p = clampToDistrict district padding preferredPosition ?nb"
    show ?thesis
    proof (cases district)
      case None
      with fb p show ?thesis by (simp add: clampToDistrict_def)
    next
      case (Some d)
      let ?W = "case d_style_width d of None \<Rightarrow> 1200 | Some w \<Rightarrow> if w \<noteq> 0 then w else (1200::real)"
      let ?H = "case d_style_height d of None \<Rightarrow> 1000 | Some h \<Rightarrow> if h \<noteq> 0 then h else (1000::real)"
      let ?wd = "b_width (getNodeBounds n)"
      let ?ht = "b_height (getNodeBounds n)"
      have eq: "p = \<lparr>px = max padding (min (px preferredPosition) (?W - ?wd - padding)),
                     py = max padding (min (py preferredPosition) (?H - ?ht - padding))\<rparr>"
        using fb Some clampToDistrict_explicit[OF refl refl, of d padding preferredPosition ?nb]
        by simp
      have "padding \<le> px p \<and> padding \<le> py p \<and>
            px p + ?wd \<le> ?W - padding \<and> py p + ?ht \<le> ?H - padding"
        if "?wd + 2 * padding \<le> ?W \<and> ?ht + 2 * padding \<le> ?H"
        using that clamp_fits[of ?wd padding ?W ?ht ?H "px preferredPosition" "py preferredPosition"]
        unfolding eq by simp
      with eq p Some show ?thesis by (simp add: Let_def)
    qed
  qed
qed

text \<open>A 200 by 150 card on a covering card, in a district of 500 by 400 with edge
  padding 50: the card fits into the padded bounds.\<close>

theorem findValidPosition_returns_free_or_fallback_witness:
  "0 < b_width (getNodeBounds (sampleNode ''e1'' 0 0 200 150 (PId ''zone'')))
   \<and> 0 < b_height (getNodeBounds (sampleNode ''e1'' 0 0 200 150 (PId ''zone'')))
   \<and> b_width (getNodeBounds (sampleNode ''e1'' 0 0 200 150 (PId ''zone''))) + 2 * 50 \<le> 500
   \<and> b_height (getNodeBounds (sampleNode ''e1'' 0 0 200 150 (PId ''zone''))) + 2 * 50 \<le> 400
   \<and> (\<exists>p. findValidPosition (sampleNode ''e1'' 0 0 200 150 (PId ''zone''))
              [sampleNode ''peer'' 0 0 600 400 (PId ''zone'')] \<lparr>px = 0, py = 0\<rparr>
              (Some smallDistrict) 50 = Some p \<and>
        ((\<forall>m \<in> set [sampleNode ''peer'' 0 0 600 400 (PId ''zone'')].
            node_id m \<noteq> node_id (sampleNode ''e1'' 0 0 200 150 (PId ''zone'')) \<and>
            node_type m \<noteq> ''district'' \<and>
            parentNode m = parentNode (sampleNode ''e1'' 0 0 200 150 (PId ''zone'')) \<longrightarrow>
            \<not> colliding (checkCollision ((sampleNode ''e1'' 0 0 200 150 (PId ''zone''))\<lparr>position := p\<rparr>) m
                  (calculateAdaptivePadding ((sampleNode ''e1'' 0 0 200 150 (PId ''zone''))\<lparr>position := p\<rparr>) m)))
         \<or> (p = \<lparr>px = 50, py = 50\<rparr> \<and> 50 \<le> px p \<and> 50 \<le> py p
              \<and> px p + 200 \<le> 500 - 50 \<and> py p + 150 \<le> 400 - 50)))"
proof -
  have w: "0 < b_width (getNodeBounds (sampleNode ''e1'' 0 0 200 150 (PId ''zone'')))"
    and h: "0 < b_height (getNodeBounds (sampleNode ''e1'' 0 0 200 150 (PId ''zone'')))"
    by (simp_all add: getNodeBounds_sampleNode)
  show ?thesis
    using w h findValidPosition_returns_free_or_fallback
      [OF w h, of "[sampleNode ''peer'' 0 0 600 400 (PId ''zone'')]" "\<lparr>px = 0, py = 0\<rparr>"
          "Some smallDistrict" 50]
    by (simp add: getNodeBounds_sampleNode smallDistrict_def Let_def)
qed

text \<open>C5, counterexample to the claim as stated: a 600 by 400 card on a covering card,
  in a district of 500 by 400 with edge padding 50. No position passes the bounds test,
  the spiral ends without a position, and the position returned is (50, 50): it collides
  with the filtered card, and the card placed there reaches to 650, beyond the padded
  bound 450, so it is not inside the padded bounds of the district.\<close>

theorem clamped_fallback_collides_counterexample:
  "0 < b_width (getNodeBounds (sampleNode ''card'' 0 0 600 400 (PId ''zone'')))
   \<and> 0 < b_height (getNodeBounds (sampleNode ''card'' 0 0 600 400 (PId ''zone'')))
   \<and> findValidPosition (sampleNode ''card'' 0 0 600 400 (PId ''zone''))
        [sampleNode ''peer'' 0 0 600 400 (PId ''zone'')] \<lparr>px = 0, py = 0\<rparr>
        (Some smallDistrict) 50 = Some \<lparr>px = 50, py = 50\<rparr>
   \<and> otherNodesOf (sampleNode ''card'' 0 0 600 400 (PId ''zone''))
        [sampleNode ''peer'' 0 0 600 400 (PId ''zone'')]
       = [sampleNode ''peer'' 0 0 600 400 (PId ''zone'')]
   \<and> colliding (checkCollision ((sampleNode ''card'' 0 0 600 400 (PId ''zone''))\<lparr>position := \<lparr>px = 50, py = 50\<rparr>\<rparr>)
        (sampleNode ''peer'' 0 0 600 400 (PId ''zone''))
        (calculateAdaptivePadding ((sampleNode ''card'' 0 0 600 400 (PId ''zone''))\<lparr>position := \<lparr>px = 50, py = 50\<rparr>\<rparr>)
           (sampleNode ''peer'' 0 0 600 400 (PId ''zone''))))
   \<and> \<not> (50 + b_width (getNodeBounds (sampleNode ''card'' 0 0 600 400 (PId ''zone''))) \<le> 500 - (50::real))
   \<and> \<not> isWithinDistrictBounds (Some smallDistrict) 50 \<lparr>px = 50, py = 50\<rparr>
          (getNodeBounds (sampleNode ''card'' 0 0 600 400 (PId ''zone'')))"
proof -
  let ?n = "sampleNode ''card'' 0 0 600 400 (PId ''zone'')"
  let ?peer = "sampleNode ''peer'' 0 0 600 400 (PId ''zone'')"
  let ?nb = "getNodeBounds (?n\<lparr>position := \<lparr>px = 0, py = 0\<rparr>\<rparr>)"
  have w: "b_width (getNodeBounds ?n) = 600" and h: "b_height (getNodeBounds ?n) = 400"
    by (simp_all add: getNodeBounds_sampleNode)
  have os: "otherNodesOf ?n [?peer] = [?peer]"
    by (simp add: otherNodesOf_def sampleNode_def)
  have out: "\<not> isWithinDistrictBounds (Some smallDistrict) 50 p ?nb" for p
    by (simp add: isWithinDistrictBounds_def districtWidth_def districtHeight_def smallDistrict_def w h)
  have sp: "spiralSearch ?n [?peer] \<lparr>px = 0, py = 0\<rparr> (Some smallDistrict) 50 ?nb 60 60 = Some None"
    by (rule spiralSearch_out_of_bounds) (simp_all add: out)
  have run: "findValidPosition ?n [?peer] \<lparr>px = 0, py = 0\<rparr> (Some smallDistrict) 50
               = Some \<lparr>px = 50, py = 50\<rparr>"
    using out[of "\<lparr>px = 0, py = 0\<rparr>"] sp
    by (simp add: findValidPosition_def Let_def os w h clampToDistrict_def
        districtWidth_def districtHeight_def smallDistrict_def)
  have pad: "calculateAdaptivePadding (sampleNode ''card'' 50 50 600 400 (PId ''zone'')) ?peer = 70"
    by (simp add: calculateAdaptivePadding_def getNodeBounds_sampleNode Let_def)
  have coll: "colliding (checkCollision (?n\<lparr>position := \<lparr>px = 50, py = 50\<rparr>\<rparr>) ?peer
        (calculateAdaptivePadding (?n\<lparr>position := \<lparr>px = 50, py = 50\<rparr>\<rparr>) ?peer))"
    by (simp add: sampleNode_position pad colliding_iff getNodeBounds_sampleNode)
  have nin: "\<not> isWithinDistrictBounds (Some smallDistrict) 50 \<lparr>px = 50, py = 50\<rparr> (getNodeBounds ?n)"
    by (simp add: isWithinDistrictBounds_def districtWidth_def districtHeight_def smallDistrict_def w h)
  show ?thesis using run os coll nin by (simp add: w h)
qed




end
